theory Spec2Isabelle
  imports Main "HOL-Library.Char_ord"
begin

section \<open>Strings and character classes\<close>

text \<open>
  A Python \<open>str\<close> is modelled as a \<open>string\<close>: one \<open>char\<close> per ASCII character. The only
  non-ASCII text of the sources is the section mark of the header patterns and the
  no-break space of \<open>normalize\<close>; both stand as their UTF-8 bytes. The character classes
  below (\<open>\s\<close>, \<open>\d\<close>, \<open>\w\<close>, \<open>str.isalpha\<close>, ...) are Python's classes on the ASCII range.
\<close>

definition is_space :: "char \<Rightarrow> bool" where
  "is_space c \<longleftrightarrow> c = CHR '' '' \<or> (CHR 0x09 \<le> c \<and> c \<le> CHR 0x0D) \<or> (CHR 0x1C \<le> c \<and> c \<le> CHR 0x1F)"

definition is_digit :: "char \<Rightarrow> bool" where
  "is_digit c \<longleftrightarrow> CHR ''0'' \<le> c \<and> c \<le> CHR ''9''"

definition is_lower :: "char \<Rightarrow> bool" where
  "is_lower c \<longleftrightarrow> CHR ''a'' \<le> c \<and> c \<le> CHR ''z''"

definition is_upper :: "char \<Rightarrow> bool" where
  "is_upper c \<longleftrightarrow> CHR ''A'' \<le> c \<and> c \<le> CHR ''Z''"

definition is_alpha :: "char \<Rightarrow> bool" where
  "is_alpha c \<longleftrightarrow> is_lower c \<or> is_upper c"

definition is_word :: "char \<Rightarrow> bool" where
  "is_word c \<longleftrightarrow> is_alpha c \<or> is_digit c \<or> c = CHR ''_''"

text \<open>Upper and lower case letters differ in bit 5 of their code.\<close>

definition to_lower :: "char \<Rightarrow> char" where
  "to_lower c = (if is_upper c
     then (case c of Char b0 b1 b2 b3 b4 b5 b6 b7 \<Rightarrow> Char b0 b1 b2 b3 b4 True b6 b7) else c)"

definition to_upper :: "char \<Rightarrow> char" where
  "to_upper c = (if is_lower c
     then (case c of Char b0 b1 b2 b3 b4 b5 b6 b7 \<Rightarrow> Char b0 b1 b2 b3 b4 False b6 b7) else c)"

definition lower :: "string \<Rightarrow> string" where
  "lower s = map to_lower s"

definition upper :: "string \<Rightarrow> string" where
  "upper s = map to_upper s"

text \<open>\<open>str.strip(chars)\<close> and \<open>str.strip()\<close>, \<open>str.rstrip(chars)\<close>.\<close>

definition rstrip_chars :: "(char \<Rightarrow> bool) \<Rightarrow> string \<Rightarrow> string" where
  "rstrip_chars p s = rev (dropWhile p (rev s))"

definition strip_chars :: "(char \<Rightarrow> bool) \<Rightarrow> string \<Rightarrow> string" where
  "strip_chars p s = rstrip_chars p (dropWhile p s)"

definition strip :: "string \<Rightarrow> string" where
  "strip s = strip_chars is_space s"

text \<open>\<open>str.isalpha\<close>, \<open>str.isdigit\<close>, \<open>str.islower\<close>, \<open>str.isupper\<close>: the first two want a
  non-empty string of such characters; the last two want a cased character and no
  cased character of the other case.\<close>

definition isalpha :: "string \<Rightarrow> bool" where
  "isalpha s \<longleftrightarrow> s \<noteq> [] \<and> list_all is_alpha s"

definition isdigit :: "string \<Rightarrow> bool" where
  "isdigit s \<longleftrightarrow> s \<noteq> [] \<and> list_all is_digit s"

definition islower :: "string \<Rightarrow> bool" where
  "islower s \<longleftrightarrow> list_ex is_alpha s \<and> \<not> list_ex is_upper s"

definition isupper :: "string \<Rightarrow> bool" where
  "isupper s \<longleftrightarrow> list_ex is_alpha s \<and> \<not> list_ex is_lower s"

text \<open>\<open>str.split(sep)\<close> for a one-character separator, and \<open>sep.join(parts)\<close>.\<close>

fun split_on :: "char \<Rightarrow> string \<Rightarrow> string list" where
  "split_on sep [] = [] # []"
| "split_on sep (c # cs) =
     (if c = sep then [] # split_on sep cs
      else (case split_on sep cs of [] \<Rightarrow> [c] # [] | p # ps \<Rightarrow> (c # p) # ps))"

fun join :: "string \<Rightarrow> string list \<Rightarrow> string" where
  "join sep [] = []"
| "join sep [p] = p"
| "join sep (p # q # ps) = p @ sep @ join sep (q # ps)"

section \<open>Regular expressions\<close>

text \<open>
  The patterns of the sources are terms of \<open>regex\<close>; \<open>run\<close> is a backtracking matcher that
  returns the states a pattern can end in, in the order Python's \<open>re\<close> tries them (greedy
  repetition first, left alternative first), so that the head of the list is the match
  \<open>re\<close> reports.
\<close>

datatype citem = Ch char | Rng char char

datatype regex =
    Eps
  | Lit char
  | Cls "citem list"
  | NCls "citem list"
  | Space
  | Digit
  | Dot
  | Bol
  | Eol
  | WordB
  | Seq regex regex
  | Alt regex regex
  | Star regex
  | Plus regex
  | Opt regex
  | Grp nat regex

definition cat :: "regex list \<Rightarrow> regex" where
  "cat rs = foldr Seq rs Eps"

definition lits :: "string \<Rightarrow> regex" where
  "lits s = cat (map Lit s)"

datatype mstate = MState (prev: "char option") (rest: string) (pos: nat) (groups: "(nat \<times> string) list")

fun in_item :: "citem \<Rightarrow> char \<Rightarrow> bool" where
  "in_item (Ch a) c \<longleftrightarrow> c = a"
| "in_item (Rng lo hi) c \<longleftrightarrow> lo \<le> c \<and> c \<le> hi"

definition in_class :: "bool \<Rightarrow> citem list \<Rightarrow> char \<Rightarrow> bool" where
  "in_class ic items c \<longleftrightarrow> list_ex (\<lambda>i. in_item i c) items
     \<or> (ic \<and> (list_ex (\<lambda>i. in_item i (to_lower c)) items \<or> list_ex (\<lambda>i. in_item i (to_upper c)) items))"

definition lit_eq :: "bool \<Rightarrow> char \<Rightarrow> char \<Rightarrow> bool" where
  "lit_eq ic a c \<longleftrightarrow> c = a \<or> (ic \<and> to_lower c = to_lower a)"

text \<open>One character, when it satisfies \<open>p\<close>.\<close>

definition step :: "(char \<Rightarrow> bool) \<Rightarrow> mstate \<Rightarrow> mstate list" where
  "step p s = (case rest s of [] \<Rightarrow> []
     | c # cs \<Rightarrow> if p c then [MState (Some c) cs (Suc (pos s)) (groups s)] else [])"

definition at_bol :: "bool \<Rightarrow> mstate \<Rightarrow> bool" where
  "at_bol ml s \<longleftrightarrow> prev s = None \<or> (ml \<and> prev s = Some CHR 0x0A)"

definition at_eol :: "bool \<Rightarrow> mstate \<Rightarrow> bool" where
  "at_eol ml s \<longleftrightarrow> rest s = [] \<or> rest s = [CHR 0x0A] \<or> (ml \<and> take 1 (rest s) = [CHR 0x0A])"

definition at_wordb :: "mstate \<Rightarrow> bool" where
  "at_wordb s \<longleftrightarrow> (case prev s of None \<Rightarrow> False | Some c \<Rightarrow> is_word c)
     \<noteq> (case rest s of [] \<Rightarrow> False | c # cs \<Rightarrow> is_word c)"

definition set_group :: "nat \<Rightarrow> mstate \<Rightarrow> mstate \<Rightarrow> mstate" where
  "set_group i s e = MState (prev e) (rest e) (pos e)
     ((i, take (pos e - pos s) (rest s)) # filter (\<lambda>g. fst g \<noteq> i) (groups e))"

text \<open>The termination order of the matcher: \<open>Plus a\<close> runs \<open>Star a\<close>, so it weighs more.\<close>

fun weight :: "regex \<Rightarrow> nat" where
  "weight (Seq a b) = Suc (weight a + weight b)"
| "weight (Alt a b) = Suc (weight a + weight b)"
| "weight (Star a) = Suc (weight a)"
| "weight (Plus a) = Suc (Suc (weight a))"
| "weight (Opt a) = Suc (weight a)"
| "weight (Grp i a) = Suc (weight a)"
| "weight r = 0"

text \<open>\<open>ic\<close> is \<open>re.IGNORECASE\<close>, \<open>ml\<close> is \<open>re.MULTILINE\<close>. A repetition goes on only from
  a state that consumed input.\<close>

function run :: "bool \<Rightarrow> bool \<Rightarrow> regex \<Rightarrow> mstate \<Rightarrow> mstate list" where
  "run ic ml Eps s = [s]"
| "run ic ml (Lit a) s = step (lit_eq ic a) s"
| "run ic ml (Cls items) s = step (in_class ic items) s"
| "run ic ml (NCls items) s = step (\<lambda>c. \<not> in_class ic items c) s"
| "run ic ml Space s = step is_space s"
| "run ic ml Digit s = step is_digit s"
| "run ic ml Dot s = step (\<lambda>c. c \<noteq> CHR 0x0A) s"
| "run ic ml Bol s = (if at_bol ml s then [s] else [])"
| "run ic ml Eol s = (if at_eol ml s then [s] else [])"
| "run ic ml WordB s = (if at_wordb s then [s] else [])"
| "run ic ml (Seq a b) s = concat (map (run ic ml b) (run ic ml a s))"
| "run ic ml (Alt a b) s = run ic ml a s @ run ic ml b s"
| "run ic ml (Star a) s =
     concat (map (\<lambda>e. if length (rest e) < length (rest s) then run ic ml (Star a) e else [])
       (run ic ml a s)) @ [s]"
| "run ic ml (Plus a) s = concat (map (run ic ml (Star a)) (run ic ml a s))"
| "run ic ml (Opt a) s = run ic ml a s @ [s]"
| "run ic ml (Grp i a) s = map (set_group i s) (run ic ml a s)"
  by pat_completeness auto
termination
  by (relation "inv_image (less_than <*lex*> less_than)
        (\<lambda>(ic, ml, r, s). (weight r, length (rest s)))") auto

datatype rmatch = Match (m_start: nat) (m_end: nat) (group0: string) (m_groups: "(nat \<times> string) list")

definition group :: "rmatch \<Rightarrow> nat \<Rightarrow> string option" where
  "group m i = map_of (m_groups m) i"

definition match_here :: "bool \<Rightarrow> bool \<Rightarrow> regex \<Rightarrow> mstate \<Rightarrow> rmatch option" where
  "match_here ic ml r s = (case run ic ml r s of [] \<Rightarrow> None
     | e # _ \<Rightarrow> Some (Match (pos s) (pos e) (take (pos e - pos s) (rest s)) (groups e)))"

text \<open>\<open>re.match\<close>: at the start of the string only.\<close>

definition re_match :: "bool \<Rightarrow> bool \<Rightarrow> regex \<Rightarrow> string \<Rightarrow> rmatch option" where
  "re_match ic ml r s = match_here ic ml r (MState None s 0 [])"

text \<open>\<open>re.fullmatch\<close>: some way of matching ends at the end of the string.\<close>

definition re_fullmatch :: "bool \<Rightarrow> bool \<Rightarrow> regex \<Rightarrow> string \<Rightarrow> bool" where
  "re_fullmatch ic ml r s = list_ex (\<lambda>e. rest e = []) (run ic ml r (MState None s 0 []))"

text \<open>\<open>re.search\<close>: the leftmost position where the pattern matches.\<close>

fun search_from :: "bool \<Rightarrow> bool \<Rightarrow> regex \<Rightarrow> char option \<Rightarrow> nat \<Rightarrow> string \<Rightarrow> rmatch option" where
  "search_from ic ml r p n [] = match_here ic ml r (MState p [] n [])"
| "search_from ic ml r p n (c # cs) =
     (case match_here ic ml r (MState p (c # cs) n []) of
        Some m \<Rightarrow> Some m
      | None \<Rightarrow> search_from ic ml r (Some c) (Suc n) cs)"

definition re_search :: "bool \<Rightarrow> bool \<Rightarrow> regex \<Rightarrow> string \<Rightarrow> rmatch option" where
  "re_search ic ml r s = search_from ic ml r None 0 s"

text \<open>\<open>re.finditer\<close>: the matches from left to right, each search starting where the
  match before ended; \<open>k\<close> counts the characters of the last match still to be passed.
  (No pattern handed to \<open>finditer\<close>, \<open>findall\<close> or \<open>sub\<close> in the sources matches the empty
  string.)\<close>

fun finditer_from :: "bool \<Rightarrow> bool \<Rightarrow> regex \<Rightarrow> nat \<Rightarrow> char option \<Rightarrow> nat \<Rightarrow> string \<Rightarrow> rmatch list" where
  "finditer_from ic ml r k p n [] =
     (if k = 0 then (case match_here ic ml r (MState p [] n []) of Some m \<Rightarrow> [m] | None \<Rightarrow> [])
      else [])"
| "finditer_from ic ml r k p n (c # cs) =
     (if 0 < k then finditer_from ic ml r (k - 1) (Some c) (Suc n) cs
      else (case match_here ic ml r (MState p (c # cs) n []) of
              None \<Rightarrow> finditer_from ic ml r 0 (Some c) (Suc n) cs
            | Some m \<Rightarrow> m # finditer_from ic ml r (m_end m - n - 1) (Some c) (Suc n) cs))"

definition re_finditer :: "bool \<Rightarrow> bool \<Rightarrow> regex \<Rightarrow> string \<Rightarrow> rmatch list" where
  "re_finditer ic ml r s = finditer_from ic ml r 0 None 0 s"

text \<open>\<open>re.sub\<close> with a constant replacement: the matches do not overlap, so replacing
  them from the right keeps the offsets of the ones to the left.\<close>

definition re_sub :: "regex \<Rightarrow> string \<Rightarrow> string \<Rightarrow> string" where
  "re_sub r repl s =
     foldr (\<lambda>m t. take (m_start m) t @ repl @ drop (m_end m) t) (re_finditer False False r s) s"

text \<open>\<open>re.split(pattern, s, maxsplit=1)\<close> for a pattern without groups.\<close>

definition re_split1 :: "regex \<Rightarrow> string \<Rightarrow> string list" where
  "re_split1 r s = (case re_search False False r s of None \<Rightarrow> [s]
     | Some m \<Rightarrow> [take (m_start m) s, drop (m_end m) s])"

text \<open>\<open>re.findall\<close> for a pattern with one group: the group of every match.\<close>

definition re_findall1 :: "regex \<Rightarrow> string \<Rightarrow> string list" where
  "re_findall1 r s = map (\<lambda>m. case group m 1 of Some g \<Rightarrow> g | None \<Rightarrow> []) (re_finditer False False r s)"

section \<open>The label grammar\<close>

datatype level = Section | Subsection | Paragraph | Subparagraph | Clause | Subclause | Item | Subitem

definition lower_az :: regex where "lower_az = Cls [Rng CHR ''a'' CHR ''z'']"
definition upper_AZ :: regex where "upper_AZ = Cls [Rng CHR ''A'' CHR ''Z'']"

definition label_pattern :: "regex \<Rightarrow> regex" where
  "label_pattern body = cat [Bol, Lit CHR ''('', Grp 1 body, Lit CHR '')'', Space]"

definition LABEL_PATTERNS :: "(level \<times> regex) list" where
  "LABEL_PATTERNS = [
     (Item, label_pattern (Seq lower_az lower_az)),
     (Subitem, label_pattern (Seq upper_AZ upper_AZ)),
     (Clause, label_pattern (Plus (Cls (map Ch ''ivxlcdm'')))),
     (Subclause, label_pattern (Plus (Cls (map Ch ''IVXLCDM'')))),
     (Paragraph, label_pattern (Plus (Cls [Rng CHR ''0'' CHR ''9'']))),
     (Subparagraph, label_pattern upper_AZ),
     (Subsection, label_pattern lower_az)]"

definition LEVEL_ORDER :: "level list" where
  "LEVEL_ORDER = [Section, Subsection, Paragraph, Subparagraph, Clause, Subclause, Item, Subitem]"

fun first_label :: "(level \<times> regex) list \<Rightarrow> string \<Rightarrow> level option \<times> string option \<times> nat" where
  "first_label [] line = (None, None, 0)"
| "first_label ((lv, pattern) # ps) line =
     (case re_match False False pattern line of
        Some m \<Rightarrow> (Some lv, group m 1, m_end m)
      | None \<Rightarrow> first_label ps line)"

definition detect_label :: "string \<Rightarrow> level option \<times> string option \<times> nat" where
  "detect_label line = first_label LABEL_PATTERNS line"

section \<open>Documents\<close>

text \<open>The dictionaries of the sources as records. A key that some documents lack is an
  \<open>option\<close> field: \<open>None\<close> is the missing key.\<close>

datatype json = JNull | JBool bool | JNum int | JStr string | JArr "json list"
  | JObj "(string \<times> json) list"

datatype node = Node (node_id: string) (label: string) (level: level) (heading: "string option")
  (ntext: string) (children: "node list")

text \<open>\<open>source["title"]\<close> is \<open>int(title)\<close> or a string.\<close>

datatype title = TInt nat | TStr string

record source =
  s_work :: string
  s_title :: title
  s_section :: string

text \<open>\<open>confidence\<close> is 0.95 or 0.9 in the sources; it is kept in hundredths.\<close>

record link =
  l_source :: string
  l_target :: string
  l_relation :: string
  l_scope :: string
  l_ref_text :: string
  l_confidence :: nat

record document =
  d_id :: string
  d_type :: string
  d_source :: source
  d_heading :: "string option option"
  d_nodes :: "node list option"
  d_links :: "link list option"
  d_spans :: "json list option"
  d_meta :: "(string \<times> json) list option"

record ParseResult =
  document :: document
  needs_llm_assist :: bool

section \<open>The parser\<close>

definition NBSP :: string where
  "NBSP = [CHR 0xC2, CHR 0xA0]"

text \<open>The mark between title and section in the header patterns, as the source file
  holds it (two code points, U+0E22 U+0E07), in UTF-8.\<close>

definition SECTION_MARK :: string where
  "SECTION_MARK = [CHR 0xE0, CHR 0xB8, CHR 0xA2, CHR 0xE0, CHR 0xB8, CHR 0x87]"

definition LF :: char where "LF = CHR 0x0A"

text \<open>\<open>str.replace\<close> replaces the occurrences of \<open>old\<close> from left to right.\<close>

definition replace :: "string \<Rightarrow> string \<Rightarrow> string \<Rightarrow> string" where
  "replace old new s = re_sub (lits old) new s"

definition normalize :: "string \<Rightarrow> string" where
  "normalize t0 =
    (let t1 = replace NBSP '' '' t0;
         t2 = re_sub (Plus (Cls [Ch CHR 0x09, Ch CHR 0x0C, Ch CHR 0x0D])) '' '' t1;
         t3 = re_sub (Seq (Cls [Ch CHR '' '']) (Plus (Cls [Ch CHR '' '']))) '' '' t2;
         t4 = re_sub (Seq (Opt (Lit CHR 0x0D)) (Lit LF)) [LF] t3
     in strip t4)"

definition digit09 :: regex where "digit09 = Cls [Rng CHR ''0'' CHR ''9'']"

definition HEADER_CFR :: regex where
  "HEADER_CFR = cat [Bol, Grp 1 (Plus Digit), Star Space, lits ''CFR'', Star Space,
     lits SECTION_MARK, Star Space,
     Grp 2 (cat [Plus digit09, Lit CHR ''.'', Plus (Cls [Rng CHR ''0'' CHR ''9'', Ch CHR ''-''])]),
     Star Space, Grp 3 (Star Dot), Eol]"

definition HEADER_USC :: regex where
  "HEADER_USC = cat [Bol, Grp 1 (Plus Digit), Star Space,
     Opt (Grp 2 (cat [Lit CHR ''U'', Opt (Lit CHR ''.''), Lit CHR ''S'', Opt (Lit CHR ''.''),
                      Lit CHR ''C'', Opt (Lit CHR ''.'')])),
     Star Space, lits SECTION_MARK, Star Space,
     Grp 3 (Plus (Cls [Rng CHR ''0'' CHR ''9'', Rng CHR ''A'' CHR ''Z'', Rng CHR ''a'' CHR ''z'',
                       Ch CHR ''-''])),
     Star Space, Grp 4 (Star Dot), Eol]"

text \<open>Both header patterns carry \<open>(?m)\<close>.\<close>

definition header_search :: "regex \<Rightarrow> string \<Rightarrow> rmatch option" where
  "header_search r s = re_search False True r s"

text \<open>The text of a group that takes part in every match of its pattern.\<close>

definition group_str :: "rmatch \<Rightarrow> nat \<Rightarrow> string" where
  "group_str m i = (case group m i of Some g \<Rightarrow> g | None \<Rightarrow> [])"

text \<open>\<open>s.strip() or None\<close>.\<close>

definition strip_or_None :: "string \<Rightarrow> string option" where
  "strip_or_None s = (if strip s = [] then None else Some (strip s))"

text \<open>\<open>int(s)\<close> on a string of digits and \<open>str(n)\<close>. (The bound CPython may put on the
  number of digits \<open>int\<close> converts is not modelled.)\<close>

definition digit_val :: "char \<Rightarrow> nat" where
  "digit_val c = of_char c - 48"

definition int_of_str :: "string \<Rightarrow> nat" where
  "int_of_str s = foldl (\<lambda>n c. 10 * n + digit_val c) 0 s"

function str_of_nat :: "nat \<Rightarrow> string" where
  "str_of_nat n = (if n < 10 then [''0123456789'' ! n]
     else str_of_nat (n div 10) @ [''0123456789'' ! (n mod 10)])"
  by pat_completeness auto
termination
  by (relation "measure id") auto

fun str_of_title :: "title \<Rightarrow> string" where
  "str_of_title (TInt n) = str_of_nat n"
| "str_of_title (TStr s) = s"

text \<open>\<open>LEVEL_ORDER.index(level)\<close>; every level is in \<open>LEVEL_ORDER\<close>.\<close>

fun index_of :: "'a \<Rightarrow> 'a list \<Rightarrow> nat" where
  "index_of x [] = 0"
| "index_of x (y # ys) = (if x = y then 0 else Suc (index_of x ys))"

definition level_index :: "level \<Rightarrow> nat" where
  "level_index lv = index_of lv LEVEL_ORDER"

definition heading_and_body :: "string \<Rightarrow> string option \<times> string" where
  "heading_and_body body =
    (let candidate = strip body in
     if candidate = [] then (None, [])
     else (case re_split1 (Seq (Lit CHR ''.'') (Plus Space)) candidate of
         [h, r] \<Rightarrow>
           (let heading_candidate = strip h in
            if heading_candidate \<noteq> [] \<and> length heading_candidate \<le> 80
               \<and> is_upper (hd heading_candidate)
            then (Some heading_candidate, strip r) else (None, candidate))
       | _ \<Rightarrow> (None, candidate)))"

definition is_paren :: "char \<Rightarrow> bool" where
  "is_paren c \<longleftrightarrow> c = CHR ''('' \<or> c = CHR '')''"

definition paren :: "string \<Rightarrow> string" where
  "paren lab = ''('' @ lab @ '')''"

text \<open>
  The stack of open nodes is kept top first: its head is \<open>stack[-1]\<close>, its last element
  the section node \<open>stack[0]\<close>. In the sources a node is appended to its parent's
  \<open>children\<close> when it is created, and the stack and the parent share it; here an open node
  stays on the stack only, and \<open>attach\<close> appends it to its parent when it is popped
  (at the end of the input for the nodes still open). A parent gets its next child only
  after the one before was popped, so the children are in the same order.
\<close>

definition make_node_id :: "string \<Rightarrow> node list \<Rightarrow> string \<Rightarrow> string" where
  "make_node_id base_id stack lab =
     base_id @ concat (map (\<lambda>n. paren (strip_chars is_paren (label n))) (rev (butlast stack)))
       @ paren lab"

definition new_node :: "string \<Rightarrow> node list \<Rightarrow> level \<Rightarrow> string \<Rightarrow> string option \<Rightarrow> string \<Rightarrow> node" where
  "new_node base_id stack lv lab heading_text body_text =
     Node (make_node_id base_id stack lab) (paren lab) lv heading_text (strip body_text) []"

fun attach :: "node \<Rightarrow> node \<Rightarrow> node" where
  "attach child (Node i l lv h t cs) = Node i l lv h t (cs @ [child])"

fun set_text :: "string \<Rightarrow> node \<Rightarrow> node" where
  "set_text t' (Node i l lv h t cs) = Node i l lv h t' cs"

fun pop_while :: "nat \<Rightarrow> node list \<Rightarrow> node list" where
  "pop_while level_idx (cur # parent # stack) =
     (if level_idx \<le> level_index (level cur)
      then pop_while level_idx (attach cur parent # stack)
      else cur # parent # stack)"
| "pop_while level_idx stack = stack"

fun close_all :: "node list \<Rightarrow> node list" where
  "close_all (cur # parent # stack) = close_all (attach cur parent # stack)"
| "close_all stack = stack"

text \<open>The two branches of the line loop: a line with a label opens a node, any other line
  goes to the text of the node on top of the stack.\<close>

definition open_node :: "string \<Rightarrow> node list \<Rightarrow> string \<Rightarrow> level \<Rightarrow> string \<Rightarrow> nat \<Rightarrow> node list" where
  "open_node base_id stack line lv lab p =
    (let stack' = pop_while (level_index lv) stack;
         remainder = strip (drop p line);
         (heading_text, body_text) = heading_and_body remainder;
         node = new_node base_id stack' lv lab heading_text body_text;
         node' = (if ntext node = [] then set_text remainder node else node)
     in node' # stack')"

definition append_line :: "node list \<Rightarrow> string \<Rightarrow> node list" where
  "append_line stack line =
    (case stack of
       [] \<Rightarrow> []
     | current # below \<Rightarrow>
         (let addition = strip line in
          if addition \<noteq> [] then
            (if ntext current \<noteq> [] then set_text (ntext current @ '' '' @ addition) current
             else set_text addition current) # below
          else stack))"

definition parse_line :: "string \<Rightarrow> string \<Rightarrow> node list \<Rightarrow> string \<Rightarrow> node list" where
  "parse_line base_id header_line stack line =
    (if strip line = strip header_line then stack
     else (case detect_label line of
         (Some lv, Some lab, p) \<Rightarrow>
           if lab \<noteq> [] then open_node base_id stack line lv lab p else append_line stack line
       | _ \<Rightarrow> append_line stack line))"

text \<open>The document returned when the structure is not recognized.\<close>

definition or_unknown :: "string \<Rightarrow> string" where
  "or_unknown citation_hint = (if citation_hint = [] then ''unknown'' else citation_hint)"

definition assist_document :: "string \<Rightarrow> string \<Rightarrow> string \<Rightarrow> ParseResult" where
  "assist_document citation_hint source_type title_value =
     \<lparr>document = \<lparr>d_id = or_unknown citation_hint, d_type = lower source_type,
         d_source = \<lparr>s_work = upper source_type, s_title = TStr title_value, s_section = []\<rparr>,
         d_heading = None, d_nodes = Some [], d_links = None, d_spans = None, d_meta = None\<rparr>,
      needs_llm_assist = True\<rparr>"

definition full_document :: "string \<Rightarrow> string \<Rightarrow> source \<Rightarrow> string option \<Rightarrow> node list \<Rightarrow> ParseResult" where
  "full_document base_id doc_type src heading_text section_nodes =
     \<lparr>document = \<lparr>d_id = base_id, d_type = doc_type, d_source = src,
         d_heading = Some heading_text, d_nodes = Some section_nodes, d_links = Some [],
         d_spans = Some [], d_meta = Some []\<rparr>,
      needs_llm_assist = False\<rparr>"

text \<open>The line loop of \<open>parse\<close>, from the section node to the document.\<close>

definition build_text_document ::
    "string \<Rightarrow> string \<Rightarrow> source \<Rightarrow> string option \<Rightarrow> string \<Rightarrow> string \<Rightarrow> ParseResult" where
  "build_text_document base_id doc_type src heading_text header_line txt =
    (let lines = filter (\<lambda>ln. strip ln \<noteq> []) (split_on LF txt);
         section_node = Node base_id [] Section heading_text [] [];
         stack = foldl (parse_line base_id header_line) [section_node] lines
     in full_document base_id doc_type src heading_text (close_all stack))"

definition parse_text :: "string \<Rightarrow> string \<Rightarrow> string \<Rightarrow> ParseResult" where
  "parse_text source_text source_type citation_hint =
    (let txt = normalize source_text;
         m_cfr = (if upper source_type = ''CFR'' then header_search HEADER_CFR txt else None);
         m_usc = (if upper source_type \<noteq> ''CFR'' then header_search HEADER_USC txt else None)
     in case m_cfr of
          Some m \<Rightarrow>
            (let title = group_str m 1; sec = group_str m 2;
                 heading_line = strip_or_None (group_str m 3)
             in build_text_document (''cfr:'' @ title @ '':'' @ sec) ''regulation''
                  \<lparr>s_work = ''CFR'', s_title = TInt (int_of_str title), s_section = sec\<rparr>
                  heading_line (group0 m) txt)
        | None \<Rightarrow>
            (case m_usc of
               Some m \<Rightarrow>
                 (let title = group_str m 1; sec = group_str m 3;
                      heading_line = strip_or_None (group_str m 4)
                  in build_text_document (''usc:'' @ title @ '':'' @ sec) ''statute''
                       \<lparr>s_work = ''USC'', s_title = TInt (int_of_str title), s_section = sec\<rparr>
                       heading_line (group0 m) txt)
             | None \<Rightarrow> assist_document citation_hint source_type citation_hint))"

subsection \<open>Markup input\<close>

text \<open>An element of \<open>xml.etree.ElementTree\<close>: tag, text, tail and subelements. The XML
  reader itself is a parameter of \<open>parse\<close>: it maps the source text to the root element,
  or to \<open>None\<close> where \<open>ET.fromstring\<close> raises \<open>ParseError\<close>.\<close>

datatype element = Element (tag: string) (etext: "string option") (tail: "string option")
  (elems: "element list")

definition USLM_NS :: string where
  "USLM_NS = ''http://xml.house.gov/schemas/uslm/1.0''"

definition uslm :: "string \<Rightarrow> string" where
  "uslm name = ''{'' @ USLM_NS @ ''}'' @ name"

definition USLM_LEVEL_MAP :: "string \<Rightarrow> level option" where
  "USLM_LEVEL_MAP = map_of [
     (''subsection'', Subsection), (''paragraph'', Paragraph), (''subparagraph'', Subparagraph),
     (''clause'', Clause), (''subclause'', Subclause), (''item'', Item), (''subitem'', Subitem)]"

definition local_name :: "string \<Rightarrow> string" where
  "local_name tg = (if CHR ''}'' \<in> set tg then tl (dropWhile (\<lambda>c. c \<noteq> CHR ''}'') tg) else tg)"

text \<open>\<open>element.find("uslm:name")\<close>, \<open>element.findtext("uslm:name", default)\<close> and
  \<open>root.find(".//uslm:section")\<close>.\<close>

definition find_child :: "element \<Rightarrow> string \<Rightarrow> element option" where
  "find_child e name = find (\<lambda>c. tag c = uslm name) (elems e)"

definition findtext :: "element \<Rightarrow> string \<Rightarrow> string option \<Rightarrow> string option" where
  "findtext e name dflt =
     (case find_child e name of
        None \<Rightarrow> dflt
      | Some c \<Rightarrow> Some (case etext c of None \<Rightarrow> [] | Some t \<Rightarrow> t))"

fun descendants :: "element \<Rightarrow> element list" where
  "descendants (Element tg tx ta es) = concat (map (\<lambda>c. c # descendants c) es)"

definition find_section :: "element \<Rightarrow> element option" where
  "find_section root = find (\<lambda>c. tag c = uslm ''section'') (descendants root)"

text \<open>\<open>[s.strip()] if s and s.strip() else []\<close>.\<close>

definition stripped_part :: "string option \<Rightarrow> string list" where
  "stripped_part s = (case s of None \<Rightarrow> [] | Some t \<Rightarrow> if strip t \<noteq> [] then [strip t] else [])"

fun extract_direct_text :: "element \<Rightarrow> string" where
  "extract_direct_text (Element tg tx ta es) =
    (let parts = stripped_part tx @ concat (map (\<lambda>child.
           if USLM_LEVEL_MAP (local_name (tag child)) \<noteq> None then stripped_part (tail child)
           else (let nested = extract_direct_text child
                 in (if nested \<noteq> [] then [nested] else []) @ stripped_part (tail child))) es)
     in if parts \<noteq> [] then normalize (join '' '' parts) else [])"

definition extract_direct_text_opt :: "element option \<Rightarrow> string" where
  "extract_direct_text_opt e = (case e of None \<Rightarrow> [] | Some el \<Rightarrow> extract_direct_text el)"

text \<open>\<open>heading_text.strip() or None\<close> when \<open>heading_text\<close> is not \<open>None\<close>.\<close>

definition heading_of :: "element \<Rightarrow> string option" where
  "heading_of e = (case findtext e ''heading'' None of None \<Rightarrow> None | Some h \<Rightarrow> strip_or_None h)"

definition label_value_of :: "element \<Rightarrow> string" where
  "label_value_of e =
    (let raw_label = strip (case findtext e ''num'' (Some []) of Some t \<Rightarrow> t | None \<Rightarrow> []);
         label_normalized = rstrip_chars (\<lambda>c. c = CHR ''.'') raw_label;
         label_normalized' = (if label_normalized \<noteq> [] \<and> take 1 label_normalized \<noteq> ''(''
            then paren label_normalized else label_normalized)
     in strip_chars is_paren label_normalized')"

definition children_parent :: "element \<Rightarrow> element" where
  "children_parent e = (case find_child e ''content'' of Some content \<Rightarrow> content | None \<Rightarrow> e)"

function build_uslm_node :: "element \<Rightarrow> string \<Rightarrow> node list \<Rightarrow> node option" where
  "build_uslm_node e base_id stack =
    (case USLM_LEVEL_MAP (local_name (tag e)) of
       None \<Rightarrow> None
     | Some lv \<Rightarrow>
         (let label_value = label_value_of e in
          if label_value = [] then None
          else (let node = new_node base_id stack lv label_value (heading_of e)
                       (extract_direct_text_opt (find_child e ''content''));
                    built = map (\<lambda>child. build_uslm_node child base_id (node # stack))
                       (filter (\<lambda>child. USLM_LEVEL_MAP (local_name (tag child)) \<noteq> None)
                          (elems (children_parent e)))
                in Some (Node (node_id node) (label node) (level node) (heading node) (ntext node)
                     (concat (map (\<lambda>b. case b of Some n \<Rightarrow> [n] | None \<Rightarrow> []) built))))))"
  by pat_completeness auto
termination
proof (relation "measure (\<lambda>(e, base_id, stack). size e)")
  show "wf (measure (\<lambda>(e, base_id, stack). size e))" by simp
next
  fix e :: element and base_id :: string and stack :: "node list" and child :: element
  have parent: "size (children_parent e) \<le> size e"
  proof (cases "find_child e ''content''")
    case None
    then show ?thesis by (simp add: children_parent_def)
  next
    case (Some c)
    then have "c \<in> set (elems e)"
      by (auto simp: find_child_def find_Some_iff)
    then have "size c < size e"
      by (cases e) (auto simp: less_Suc_eq_le size_list_estimation')
    with Some show ?thesis by (simp add: children_parent_def)
  qed
  assume "child \<in> set (filter (\<lambda>child. USLM_LEVEL_MAP (local_name (tag child)) \<noteq> None)
                          (elems (children_parent e)))"
  then have "child \<in> set (elems (children_parent e))" by simp
  then have "size child < size (children_parent e)"
    by (cases "children_parent e") (auto simp: less_Suc_eq_le size_list_estimation')
  with parent have "size child < size e" by simp
  then show "((child, base_id, x # stack), e, base_id, stack) \<in> measure (\<lambda>(e, base_id, stack). size e)"
    for x by simp
qed

definition metadata_from_hint :: "string \<Rightarrow> string \<Rightarrow> string \<times> string \<times> source \<times> string option" where
  "metadata_from_hint citation_hint source_type =
    (let hint = strip citation_hint;
         colon_parts = split_on CHR '':'' hint
     in if hint \<noteq> [] \<and> 3 \<le> length colon_parts
           \<and> (lower (hd colon_parts) = ''usc'' \<or> lower (hd colon_parts) = ''cfr'')
        then
          (let prefix = lower (hd colon_parts);
               title_part = colon_parts ! 1;
               section_part = join '':'' (drop 2 colon_parts)
           in (prefix @ '':'' @ title_part @ '':'' @ section_part,
               (if prefix = ''usc'' then ''statute'' else ''regulation''),
               \<lparr>s_work = upper prefix,
                s_title = (if isdigit title_part then TInt (int_of_str title_part) else TStr title_part),
                s_section = section_part\<rparr>,
               None))
        else
          (case (if upper source_type = ''CFR'' then header_search HEADER_CFR hint else None) of
             Some m \<Rightarrow>
               (let title = group_str m 1; sec = group_str m 2
                in (''cfr:'' @ title @ '':'' @ sec, ''regulation'',
                    \<lparr>s_work = ''CFR'', s_title = TInt (int_of_str title), s_section = sec\<rparr>,
                    strip_or_None (group_str m 3)))
           | None \<Rightarrow>
               (case header_search HEADER_USC hint of
                  Some m \<Rightarrow>
                    (let title = group_str m 1; sec = group_str m 3
                     in (''usc:'' @ title @ '':'' @ sec, ''statute'',
                         \<lparr>s_work = ''USC'', s_title = TInt (int_of_str title), s_section = sec\<rparr>,
                         strip_or_None (group_str m 4)))
                | None \<Rightarrow>
                    (let prefix = (if upper source_type = ''USC'' then ''usc'' else ''cfr'')
                     in (prefix @ '':'' @ or_unknown hint,
                         (if prefix = ''usc'' then ''statute'' else ''regulation''),
                         \<lparr>s_work = upper prefix, s_title = TStr hint, s_section = hint\<rparr>,
                         None)))))"

definition parse_uslm :: "element option \<Rightarrow> string \<Rightarrow> string \<Rightarrow> ParseResult" where
  "parse_uslm parsed source_type citation_hint =
    (case parsed of
       None \<Rightarrow> assist_document citation_hint source_type []
     | Some root \<Rightarrow>
         (case (if local_name (tag root) \<noteq> ''section'' then find_section root else Some root) of
            None \<Rightarrow> assist_document citation_hint source_type []
          | Some sec \<Rightarrow>
              (case metadata_from_hint citation_hint source_type of
                 (base_id, doc_type, src, heading_hint) \<Rightarrow>
                   (let heading_text = (case heading_of sec of Some h \<Rightarrow> Some h | None \<Rightarrow> heading_hint);
                        section_node = Node base_id [] Section heading_text
                           (extract_direct_text_opt (find_child sec ''content'')) [];
                        built = (case find_child sec ''content'' of
                            None \<Rightarrow> []
                          | Some content \<Rightarrow>
                              concat (map (\<lambda>child.
                                  case build_uslm_node child base_id [section_node] of
                                    Some n \<Rightarrow> [n] | None \<Rightarrow> [])
                                (elems content)))
                    in full_document base_id doc_type src heading_text
                         [Node base_id [] Section heading_text (ntext section_node) built]))))"

text \<open>\<open>xml\<close> is the XML reader. \<open>citation_hint\<close> and \<open>input_format\<close> default to \<open>""\<close> and
  \<open>"text"\<close> in the sources.\<close>

definition parse :: "(string \<Rightarrow> element option) \<Rightarrow> string \<Rightarrow> string \<Rightarrow> string \<Rightarrow> string \<Rightarrow> ParseResult" where
  "parse xml source_text source_type citation_hint input_format =
    (if lower input_format = ''uslm'' then parse_uslm (xml source_text) source_type citation_hint
     else parse_text source_text source_type citation_hint)"

section \<open>The cross-reference resolver\<close>

definition RELATION_CUES :: "(string \<times> regex) list" where
  "RELATION_CUES = [
     (''for-purposes-of'', lits ''for purposes of''),
     (''subject-to'', lits ''subject to''),
     (''exception-to'', lits ''except as provided''),
     (''notwithstanding'', lits ''notwithstanding''),
     (''definition-of'', cat [lits ''the term '', Plus Dot, lits '' means''])]"

definition paren_group :: regex where
  "paren_group = cat [Lit CHR ''('', Plus (NCls [Ch CHR '')'']), Lit CHR '')'']"

definition level_nouns :: regex where
  "level_nouns = Alt (lits ''paragraph'') (Alt (lits ''subparagraph'') (Alt (lits ''clause'')
     (Alt (lits ''subclause'') (lits ''subsection''))))"

definition ABS_REF :: regex where
  "ABS_REF = cat [WordB, lits ''section'', Plus Space,
     Grp 1 (Plus (Cls [Rng CHR ''0'' CHR ''9'', Rng CHR ''A'' CHR ''Z'', Rng CHR ''a'' CHR ''z'',
                       Ch CHR ''.'', Ch CHR ''-''])),
     Opt (Grp 2 paren_group)]"

definition REL_REF :: regex where
  "REL_REF = cat [WordB, Grp 1 level_nouns, Plus Space, Grp 2 (Plus (Grp 3 paren_group))]"

definition THIS_REF :: regex where
  "THIS_REF = cat [WordB, lits ''this'', Plus Space, Grp 1 level_nouns, WordB]"

text \<open>The three reference patterns and the cues are used with \<open>re.IGNORECASE\<close>.\<close>

definition ref_search :: "regex \<Rightarrow> string \<Rightarrow> rmatch option" where
  "ref_search r s = re_search True False r s"

definition ref_finditer :: "regex \<Rightarrow> string \<Rightarrow> rmatch list" where
  "ref_finditer r s = re_finditer True False r s"

definition level_name :: "level \<Rightarrow> string" where
  "level_name lv = (case lv of Section \<Rightarrow> ''section'' | Subsection \<Rightarrow> ''subsection''
     | Paragraph \<Rightarrow> ''paragraph'' | Subparagraph \<Rightarrow> ''subparagraph'' | Clause \<Rightarrow> ''clause''
     | Subclause \<Rightarrow> ''subclause'' | Item \<Rightarrow> ''item'' | Subitem \<Rightarrow> ''subitem'')"

definition EXPECTED_LABEL_PREDICATES :: "string \<Rightarrow> (string \<Rightarrow> bool) option" where
  "EXPECTED_LABEL_PREDICATES = map_of [
     (''subsection'', \<lambda>v. isalpha v \<and> islower v),
     (''paragraph'', \<lambda>v. isdigit v),
     (''subparagraph'', \<lambda>v. isalpha v \<and> isupper v),
     (''clause'', \<lambda>v. re_fullmatch False False (Plus (Cls (map Ch ''ivxlcdm''))) (lower v)),
     (''subclause'', \<lambda>v. re_fullmatch False False (Plus (Cls (map Ch ''IVXLCDM''))) v),
     (''item'', \<lambda>v. isalpha v \<and> islower v \<and> length v = 2),
     (''subitem'', \<lambda>v. isalpha v \<and> isupper v \<and> length v = 2)]"

fun flatten_nodes :: "node \<Rightarrow> node list" where
  "flatten_nodes (Node i l lv h t cs) = Node i l lv h t cs # concat (map flatten_nodes cs)"

text \<open>\<open>paths\<close> is a dictionary from node ids to paths; it is kept as an association list
  with the latest entry first, so that a later node with the same id replaces the
  earlier one, as the assignment \<open>paths[n["id"]] = current_path\<close> does.\<close>

fun walk_paths :: "node \<Rightarrow> node list \<Rightarrow> (string \<times> node list) list \<Rightarrow> (string \<times> node list) list" where
  "walk_paths (Node i l lv h t cs) path paths =
     foldl (\<lambda>ps child. walk_paths child (path @ [Node i l lv h t cs]) ps)
       ((i, path @ [Node i l lv h t cs]) # paths) cs"

definition build_paths :: "node \<Rightarrow> (string \<times> node list) list" where
  "build_paths n = walk_paths n [] []"

definition paths_get :: "(string \<times> node list) list \<Rightarrow> string \<Rightarrow> node list" where
  "paths_get paths i = (case map_of paths i of Some path \<Rightarrow> path | None \<Rightarrow> [])"

definition nearest_ancestor_of_level :: "node list \<Rightarrow> string \<Rightarrow> node option" where
  "nearest_ancestor_of_level path lv =
     (case find (\<lambda>n. level_name (level n) = lv) (rev path) of
        Some n \<Rightarrow> Some n
      | None \<Rightarrow> (if path \<noteq> [] then Some (last path) else None))"

definition found :: "rmatch option \<Rightarrow> bool" where
  "found m \<longleftrightarrow> m \<noteq> None"

fun first_cue :: "(string \<times> regex) list \<Rightarrow> string \<Rightarrow> string option" where
  "first_cue [] txt = None"
| "first_cue ((relation, pattern) # cues) txt =
     (if found (ref_search pattern txt) then Some relation else first_cue cues txt)"

definition detect_relation :: "string \<Rightarrow> string option" where
  "detect_relation txt =
     (case first_cue RELATION_CUES txt of
        Some relation \<Rightarrow> Some relation
      | None \<Rightarrow>
          (if found (ref_search ABS_REF txt) \<or> found (ref_search REL_REF txt)
              \<or> found (ref_search THIS_REF txt)
           then Some ''see-also'' else None))"

definition build_target_id :: "string \<Rightarrow> node list \<Rightarrow> string list \<Rightarrow> string \<Rightarrow> string" where
  "build_target_id base_id base_path suffix_labels noun =
    (let base_labels = map (\<lambda>n. strip_chars is_paren (label n)) (filter (\<lambda>n. label n \<noteq> []) base_path);
         base_labels1 = (case EXPECTED_LABEL_PREDICATES noun of
             Some predicate \<Rightarrow>
               (if suffix_labels \<noteq> [] \<and> \<not> predicate (hd suffix_labels) then [] else base_labels)
           | None \<Rightarrow> base_labels);
         base_labels2 = (if base_labels1 \<noteq> [] \<and> suffix_labels \<noteq> []
               \<and> hd suffix_labels = last base_labels1
             then butlast base_labels1 else base_labels1)
     in base_id @ concat (map paren (base_labels2 @ suffix_labels)))"

definition add_link :: "string \<Rightarrow> string \<Rightarrow> string \<Rightarrow> string \<Rightarrow> string \<Rightarrow> nat \<Rightarrow> link" where
  "add_link source_id target_id relation scope ref_text confidence =
     \<lparr>l_source = source_id, l_target = target_id, l_relation = relation, l_scope = scope,
      l_ref_text = ref_text, l_confidence = confidence\<rparr>"

text \<open>The bracketed pointer to a target: the id between two opening and two closing
  square brackets.\<close>

definition brackets :: "string \<Rightarrow> string" where
  "brackets target_id = ''['' @ ''['' @ target_id @ '']'' @ '']''"

definition pointer :: "rmatch \<Rightarrow> string \<Rightarrow> nat \<times> nat \<times> string" where
  "pointer m target_id = (m_start m, m_end m, group0 m @ '' '' @ brackets target_id)"

text \<open>What \<open>resolve\<close> reads once, before its loop over the nodes.\<close>

record rcontext =
  c_base_id :: string
  c_paths :: "(string \<times> node list) list"
  c_source_work :: string
  c_source_title :: string

text \<open>The three inner loops of \<open>resolve\<close>: each yields, match by match, the link and the
  replacement.\<close>

definition rel_refs :: "rcontext \<Rightarrow> node \<Rightarrow> string \<Rightarrow> (link \<times> nat \<times> nat \<times> string) list" where
  "rel_refs c node relation = map (\<lambda>m.
      (let noun = lower (group_str m 1);
           parens = group_str m 2;
           path = paths_get (c_paths c) (node_id node);
           ancestor = nearest_ancestor_of_level path noun;
           ancestor_path = (case ancestor of Some a \<Rightarrow> paths_get (c_paths c) (node_id a) | None \<Rightarrow> []);
           base_path = butlast ancestor_path;
           suffix_labels = re_findall1 (cat [Lit CHR ''('', Grp 1 (Plus (NCls [Ch CHR '')''])), Lit CHR '')'']) parens;
           target_id = build_target_id (c_base_id c) base_path suffix_labels noun
       in (add_link (node_id node) target_id relation ''intra-section'' (group0 m) 95,
           pointer m target_id)))
    (ref_finditer REL_REF (ntext node))"

definition this_refs :: "rcontext \<Rightarrow> node \<Rightarrow> string \<Rightarrow> (link \<times> nat \<times> nat \<times> string) list" where
  "this_refs c node relation = concat (map (\<lambda>m.
      (let noun = lower (group_str m 1);
           path = paths_get (c_paths c) (node_id node)
       in (case nearest_ancestor_of_level path noun of
             Some ancestor \<Rightarrow>
               [(add_link (node_id node) (node_id ancestor) relation ''intra-section'' (group0 m) 90,
                 pointer m (node_id ancestor))]
           | None \<Rightarrow> [])))
    (ref_finditer THIS_REF (ntext node)))"

definition abs_refs :: "rcontext \<Rightarrow> node \<Rightarrow> string \<Rightarrow> (link \<times> nat \<times> nat \<times> string) list" where
  "abs_refs c node relation = map (\<lambda>m.
      (let sec = group_str m 1;
           parens = group_str m 2;
           prefix = (if c_source_work c = ''CFR'' then ''cfr'' else ''usc'');
           target_parts = [prefix] @ (if c_source_title c \<noteq> [] then [c_source_title c] else [])
              @ [sec @ parens];
           target_id = join '':'' target_parts
       in (add_link (node_id node) target_id relation ''inter-section'' (group0 m) 95,
           pointer m target_id)))
    (ref_finditer ABS_REF (ntext node))"

text \<open>\<open>sorted(replacements, key=lambda x: x[0], reverse=True)\<close>: a stable sort, so entries
  with the same start keep their order; then the replacements one after the other.\<close>

definition apply_replacements :: "string \<Rightarrow> (nat \<times> nat \<times> string) list \<Rightarrow> string" where
  "apply_replacements txt replacements =
     foldl (\<lambda>new_text (start, end, replacement). take start new_text @ replacement @ drop end new_text)
       txt (rev (sort_key fst (rev replacements)))"

text \<open>The body of the loop over \<open>flat_nodes\<close>: the links of one node and its text after
  the loop. The loop reads of the other nodes only \<open>id\<close>, \<open>label\<close> and \<open>level\<close>, which it
  never writes, so the nodes can be taken one by one.\<close>

definition node_refs :: "rcontext \<Rightarrow> node \<Rightarrow> (link \<times> nat \<times> nat \<times> string) list" where
  "node_refs c node =
     (if ntext node = [] then []
      else (let relation = (case detect_relation (ntext node) of Some r \<Rightarrow> r | None \<Rightarrow> ''see-also'')
            in rel_refs c node relation @ this_refs c node relation @ abs_refs c node relation))"

definition node_links :: "rcontext \<Rightarrow> node \<Rightarrow> link list" where
  "node_links c node = map fst (node_refs c node)"

definition node_new_text :: "rcontext \<Rightarrow> node \<Rightarrow> string" where
  "node_new_text c node =
     (let replacements = map snd (node_refs c node)
      in if replacements \<noteq> [] then apply_replacements (ntext node) replacements else ntext node)"

fun rewrite :: "rcontext \<Rightarrow> node \<Rightarrow> node" where
  "rewrite c (Node i l lv h t cs) =
     Node i l lv h (node_new_text c (Node i l lv h t cs)) (map (rewrite c) cs)"

definition resolve :: "document \<Rightarrow> document" where
  "resolve json_doc =
    (case d_nodes json_doc of
       None \<Rightarrow> json_doc\<lparr>d_links := Some (case d_links json_doc of Some ls \<Rightarrow> ls | None \<Rightarrow> [])\<rparr>
     | Some [] \<Rightarrow> json_doc\<lparr>d_links := Some (case d_links json_doc of Some ls \<Rightarrow> ls | None \<Rightarrow> [])\<rparr>
     | Some (root # others) \<Rightarrow>
         (let c = \<lparr>c_base_id = d_id json_doc, c_paths = build_paths root,
                   c_source_work = upper (s_work (d_source json_doc)),
                   c_source_title = strip (str_of_title (s_title (d_source json_doc)))\<rparr>;
              links = concat (map (node_links c) (flatten_nodes root))
          in json_doc\<lparr>d_nodes := Some (rewrite c root # others), d_links := Some links\<rparr>))"

text \<open>A node without its text, and so the nodes below it: what is left is \<open>id\<close>, \<open>label\<close>,
  \<open>level\<close>, \<open>heading\<close> and the shape of \<open>children\<close>.\<close>

fun skeleton :: "node \<Rightarrow> node" where
  "skeleton (Node i l lv h t cs) = Node i l lv h [] (map skeleton cs)"

section \<open>Example inputs\<close>

text \<open>A two-level section of Title 26 in the shape of the end-to-end scenario: subsection
  (a) with paragraph (1), and subsection (b), whose text refers to subsection (a) and whose
  paragraph (1) refers to section 274.\<close>

definition usc_162_text :: string where
  "usc_162_text = ''26 U.S.C. '' @ SECTION_MARK @ '' 162 Expenses'' @ [LF]
     @ ''(a) In general. A deduction is allowed.'' @ [LF]
     @ ''(1) Ordinary expenses.'' @ [LF]
     @ ''(b) Limit. For purposes of subsection (a), none.'' @ [LF]
     @ ''(1) Rule. It is subject to section 274 limits.'' @ [LF]"

definition usc_162_resolved :: document where
  "usc_162_resolved =
    \<lparr>d_id = ''usc:26:162'', d_type = ''statute'',
     d_source = \<lparr>s_work = ''USC'', s_title = TInt 26, s_section = ''162''\<rparr>,
     d_heading = Some (Some ''Expenses''),
     d_nodes = Some
       [Node ''usc:26:162'' [] Section (Some ''Expenses'') []
         [Node ''usc:26:162(a)'' ''(a)'' Subsection (Some ''In general'')
            ''A deduction is allowed.''
            [Node ''usc:26:162(a)(1)'' ''(1)'' Paragraph None ''Ordinary expenses.'' []],
          Node ''usc:26:162(b)'' ''(b)'' Subsection (Some ''Limit'')
            (''For purposes of subsection (a) '' @ brackets ''usc:26:162(a)'' @ '', none.'')
            [Node ''usc:26:162(b)(1)'' ''(1)'' Paragraph (Some ''Rule'')
               (''It is subject to section 274 '' @ brackets ''usc:26:274'' @ '' limits.'') []]]],
     d_links = Some
       [\<lparr>l_source = ''usc:26:162(b)'', l_target = ''usc:26:162(a)'',
          l_relation = ''for-purposes-of'', l_scope = ''intra-section'',
          l_ref_text = ''subsection (a)'', l_confidence = 95\<rparr>,
        \<lparr>l_source = ''usc:26:162(b)(1)'', l_target = ''usc:26:274'',
          l_relation = ''subject-to'', l_scope = ''inter-section'',
          l_ref_text = ''section 274'', l_confidence = 95\<rparr>],
     d_spans = Some [], d_meta = Some []\<rparr>"

text \<open>A section whose subsection (a) speaks of "this paragraph": no node on the path from
  the root to (a) is a paragraph.\<close>

definition this_paragraph_document :: document where
  "this_paragraph_document =
    \<lparr>d_id = ''usc:26:1'', d_type = ''statute'',
     d_source = \<lparr>s_work = ''USC'', s_title = TInt 26, s_section = ''1''\<rparr>,
     d_heading = Some None,
     d_nodes = Some
       [Node ''usc:26:1'' [] Section None []
         [Node ''usc:26:1(a)'' ''(a)'' Subsection None ''See this paragraph.'' []]],
     d_links = Some [], d_spans = Some [], d_meta = Some []\<rparr>"


section \<open>Properties of the label grammar\<close>















section \<open>Properties of the parser\<close>












section \<open>Properties of the resolver\<close>

lemma foldl_invariant:
  assumes "Q a" and "\<And>a x. x \<in> set xs \<Longrightarrow> Q a \<Longrightarrow> Q (f a x)"
  shows "Q (foldl f a xs)"
  using assms by (induction xs arbitrary: a) auto

text \<open>Every path that \<open>walk_paths\<close> stores starts where the walk started and ends in a node
  with the id it is stored under.\<close>

lemma walk_paths_entries:
  assumes "\<forall>(k, p)\<in>set paths. p \<noteq> [] \<and> hd p = r \<and> node_id (last p) = k"
    and "hd (path @ [n]) = r"
  shows "\<forall>(k, p)\<in>set (walk_paths n path paths). p \<noteq> [] \<and> hd p = r \<and> node_id (last p) = k"
  using assms
proof (induction n arbitrary: path paths)
  case (Node i l lv h t cs)
  let ?n = "Node i l lv h t cs"
  let ?Q = "\<lambda>ps. \<forall>(k, p)\<in>set ps. p \<noteq> [] \<and> hd p = r \<and> node_id (last p) = k"
  have start: "?Q ((i, path @ [?n]) # paths)"
    using Node.prems by simp
  have step: "?Q (walk_paths child (path @ [?n]) ps)" if "child \<in> set cs" "?Q ps" for ps child
  proof (rule Node.IH [OF that(1) that(2)])
    show "hd ((path @ [?n]) @ [child]) = r" using Node.prems(2) by (cases path) simp_all
  qed
  have "?Q (foldl (\<lambda>ps child. walk_paths child (path @ [?n]) ps) ((i, path @ [?n]) # paths) cs)"
    by (rule foldl_invariant [where Q = ?Q, OF start]) (rule step)
  then show ?case by simp
qed

lemma subset_chain:
  "A \<union> B \<subseteq> W \<Longrightarrow> W \<union> C \<subseteq> F \<Longrightarrow> D = B \<union> C \<Longrightarrow> A \<union> D \<subseteq> F"
  by blast

text \<open>Every node of the tree has its id among the keys.\<close>

lemma walk_paths_keys:
  "fst ` set paths \<union> node_id ` set (flatten_nodes n) \<subseteq> fst ` set (walk_paths n path paths)"
proof (induction n arbitrary: path paths)
  case (Node i l lv h t cs)
  let ?n = "Node i l lv h t cs"
  have "fst ` set ps \<union> node_id ` (\<Union>c\<in>set cs'. set (flatten_nodes c))
          \<subseteq> fst ` set (foldl (\<lambda>ps child. walk_paths child (path @ [?n]) ps) ps cs')"
    if "set cs' \<subseteq> set cs" for cs' ps
    using that
  proof (induction cs' arbitrary: ps)
    case Nil
    then show ?case by simp
  next
    case (Cons c cs')
    then have c: "c \<in> set cs" and rest: "set cs' \<subseteq> set cs" by simp_all
    let ?W = "walk_paths c (path @ [?n]) ps"
    have 1: "fst ` set ps \<union> node_id ` set (flatten_nodes c) \<subseteq> fst ` set ?W"
      by (rule Node.IH [OF c])
    have 2: "fst ` set ?W \<union> node_id ` (\<Union>c\<in>set cs'. set (flatten_nodes c))
        \<subseteq> fst ` set (foldl (\<lambda>ps child. walk_paths child (path @ [?n]) ps) ?W cs')"
      by (rule Cons.IH [OF rest])
    have "node_id ` (\<Union>c\<in>set (c # cs'). set (flatten_nodes c))
        = node_id ` set (flatten_nodes c) \<union> node_id ` (\<Union>c\<in>set cs'. set (flatten_nodes c))"
      by (simp add: image_Un)
    with 1 2 show ?case unfolding foldl_Cons by (rule subset_chain)
  qed
  from this [of cs "(i, path @ [?n]) # paths"]
  have "fst ` set ((i, path @ [?n]) # paths) \<union> node_id ` (\<Union>c\<in>set cs. set (flatten_nodes c))
      \<subseteq> fst ` set (walk_paths ?n path paths)" by simp
  moreover have "fst ` set paths \<union> node_id ` set (flatten_nodes ?n)
      = fst ` set ((i, path @ [?n]) # paths) \<union> node_id ` (\<Union>c\<in>set cs. set (flatten_nodes c))"
    by (simp add: image_Un)
  ultimately show ?case by (simp only:)
qed

lemma build_paths_lookup:
  assumes "n \<in> set (flatten_nodes root)"
  shows "\<exists>p. map_of (build_paths root) (node_id n) = Some p \<and> p \<noteq> [] \<and> hd p = root
           \<and> node_id (last p) = node_id n"
proof -
  from walk_paths_keys [of "[]" root "[]"] assms
  have "node_id n \<in> fst ` set (build_paths root)" by (auto simp: build_paths_def)
  then obtain p where p: "map_of (build_paths root) (node_id n) = Some p"
    by (cases "map_of (build_paths root) (node_id n)") (auto simp: map_of_eq_None_iff)
  then have "(node_id n, p) \<in> set (build_paths root)" by (rule map_of_SomeD)
  with walk_paths_entries [of "[]" root "[]" root]
  have "p \<noteq> [] \<and> hd p = root \<and> node_id (last p) = node_id n"
    by (auto simp: build_paths_def)
  with p show ?thesis by blast
qed

text \<open>
  C2. As stated (the lookup falls back to the document root) the claim fails: in
  \<open>this_paragraph_document\<close> subsection (a) says "this paragraph", no node on its path is a
  paragraph, and the lookup returns subsection (a) itself, so the link points at
  \<open>usc:26:1(a)\<close> and not at the root \<open>usc:26:1\<close>.
\<close>

theorem nearest_ancestor_counterexample:
  "nearest_ancestor_of_level
      [Node ''usc:26:1'' [] Section None []
         [Node ''usc:26:1(a)'' ''(a)'' Subsection None ''See this paragraph.'' []],
       Node ''usc:26:1(a)'' ''(a)'' Subsection None ''See this paragraph.'' []] ''paragraph''
     = Some (Node ''usc:26:1(a)'' ''(a)'' Subsection None ''See this paragraph.'' [])
   \<and> d_links (resolve this_paragraph_document) = Some
       [\<lparr>l_source = ''usc:26:1(a)'', l_target = ''usc:26:1(a)'', l_relation = ''see-also'',
          l_scope = ''intra-section'', l_ref_text = ''this paragraph'', l_confidence = 90\<rparr>]
   \<and> d_id this_paragraph_document = ''usc:26:1''"
  by code_simp

text \<open>
  C2, amended. For a node of the tree, when no node of the referenced level is on the
  path that \<open>resolve\<close> looks up under the node's id, the nearest-ancestor lookup returns the
  last node of that path. The path starts at the root and its last node carries the id
  of the referring node, so the fall-back is the referring node itself, and the root
  only when the reference stands in the root's own text.
\<close>

theorem nearest_ancestor_fallback:
  assumes n: "n \<in> set (flatten_nodes root)"
    and path: "path = paths_get (build_paths root) (node_id n)"
    and none: "\<forall>m\<in>set path. level_name (level m) \<noteq> noun"
  shows "nearest_ancestor_of_level path noun = Some (last path)
         \<and> node_id (last path) = node_id n \<and> hd path = root"
proof -
  from build_paths_lookup [OF n] path
  have p: "path \<noteq> []" "hd path = root" "node_id (last path) = node_id n"
    by (auto simp: paths_get_def)
  have "find (\<lambda>m. level_name (level m) = noun) (rev path) = None"
    using none by (simp add: find_None_iff)
  with p show ?thesis by (simp add: nearest_ancestor_of_level_def)
qed

theorem nearest_ancestor_fallback_witness:
  "nearest_ancestor_of_level
      [Node ''usc:26:1'' [] Section None [] [Node ''usc:26:1(a)'' ''(a)'' Subsection None [] []],
       Node ''usc:26:1(a)'' ''(a)'' Subsection None [] []] ''paragraph''
     = Some (Node ''usc:26:1(a)'' ''(a)'' Subsection None [] [])
   \<and> nearest_ancestor_of_level
      [Node ''usc:26:1'' [] Section None [] [Node ''usc:26:1(a)'' ''(a)'' Subsection None [] []]]
      ''subsection''
     = Some (Node ''usc:26:1'' [] Section None [] [Node ''usc:26:1(a)'' ''(a)'' Subsection None [] []])"
proof -
  let ?a = "Node ''usc:26:1(a)'' ''(a)'' Subsection None [] []"
  let ?root = "Node ''usc:26:1'' [] Section None [] [?a]"
  have pa: "paths_get (build_paths ?root) ''usc:26:1(a)'' = [?root, ?a]"
    and pr: "paths_get (build_paths ?root) ''usc:26:1'' = [?root]"
    by (simp_all add: paths_get_def build_paths_def)
  have "nearest_ancestor_of_level [?root, ?a] ''paragraph'' = Some (last [?root, ?a])
      \<and> node_id (last [?root, ?a]) = node_id ?a \<and> hd [?root, ?a] = ?root"
    by (rule nearest_ancestor_fallback [where root = ?root and n = ?a])
      (simp_all add: pa level_name_def)
  moreover have "nearest_ancestor_of_level [?root] ''subsection'' = Some (last [?root])
      \<and> node_id (last [?root]) = node_id ?root \<and> hd [?root] = ?root"
    by (rule nearest_ancestor_fallback [where root = ?root and n = ?root])
      (simp_all add: pr level_name_def)
  ultimately show ?thesis by simp
qed

text \<open>
  C7. For a relative reference (a level noun that has an expected-label predicate, and at
  least one suffix label): when the first suffix label fails the predicate, the target is
  the base id with the suffix labels only; otherwise, when the last base label equals the
  first suffix label, the base labels lose exactly that last label; otherwise they are
  kept as they are.
\<close>

theorem build_target_id_relative:
  assumes p: "EXPECTED_LABEL_PREDICATES noun = Some predicate"
    and s: "suffix_labels = first # others"
    and b: "base_labels = map (\<lambda>n. strip_chars is_paren (label n)) (filter (\<lambda>n. label n \<noteq> []) base_path)"
  shows "build_target_id base_id base_path suffix_labels noun =
     base_id @ concat (map paren
       ((if \<not> predicate first then []
         else if base_labels \<noteq> [] \<and> last base_labels = first then butlast base_labels
         else base_labels) @ suffix_labels))"
  using p s b by (auto simp: build_target_id_def Let_def)

theorem build_target_id_relative_witness:
  "EXPECTED_LABEL_PREDICATES ''paragraph'' = Some isdigit
   \<and> build_target_id ''usc:26:162''
       [Node ''usc:26:162'' [] Section None [] [], Node ''usc:26:162(a)'' ''(a)'' Subsection None [] []]
       [''A''] ''paragraph'' = ''usc:26:162(A)''
   \<and> build_target_id ''usc:26:162''
       [Node ''usc:26:162'' [] Section None [] [], Node ''usc:26:162(a)'' ''(a)'' Subsection None [] [],
        Node ''usc:26:162(a)(1)'' ''(1)'' Paragraph None [] []]
       [''1'', ''B''] ''paragraph'' = ''usc:26:162(a)(1)(B)''
   \<and> build_target_id ''usc:26:162''
       [Node ''usc:26:162'' [] Section None [] [], Node ''usc:26:162(a)'' ''(a)'' Subsection None [] []]
       [''2''] ''paragraph'' = ''usc:26:162(a)(2)''"
proof -
  let ?root = "Node ''usc:26:162'' [] Section None [] []"
  let ?a = "Node ''usc:26:162(a)'' ''(a)'' Subsection None [] []"
  let ?p1 = "Node ''usc:26:162(a)(1)'' ''(1)'' Paragraph None [] []"
  have p: "EXPECTED_LABEL_PREDICATES ''paragraph'' = Some isdigit"
    by (simp add: EXPECTED_LABEL_PREDICATES_def)
  have la: "map (\<lambda>n. strip_chars is_paren (label n)) (filter (\<lambda>n. label n \<noteq> []) [?root, ?a]) = [''a'']"
    and l1: "map (\<lambda>n. strip_chars is_paren (label n)) (filter (\<lambda>n. label n \<noteq> []) [?root, ?a, ?p1])
       = [''a'', ''1'']"
    by (simp_all add: strip_chars_def rstrip_chars_def is_paren_def)
  have d: "\<not> isdigit ''A''" "isdigit ''1''" "isdigit ''2''"
    by (simp_all add: isdigit_def is_digit_def)
  from build_target_id_relative [OF p _ la [symmetric], of "[''A'']" "''A''" "[]" "''usc:26:162''"] d
  have "build_target_id ''usc:26:162'' [?root, ?a] [''A''] ''paragraph'' = ''usc:26:162(A)''"
    by (simp add: paren_def)
  moreover
  from build_target_id_relative [OF p _ l1 [symmetric], of "[''1'', ''B'']" "''1''" "[''B'']" "''usc:26:162''"] d
  have "build_target_id ''usc:26:162'' [?root, ?a, ?p1] [''1'', ''B''] ''paragraph'' = ''usc:26:162(a)(1)(B)''"
    by (simp add: paren_def)
  moreover
  from build_target_id_relative [OF p _ la [symmetric], of "[''2'']" "''2''" "[]" "''usc:26:162''"] d
  have "build_target_id ''usc:26:162'' [?root, ?a] [''2''] ''paragraph'' = ''usc:26:162(a)(2)''"
    by (simp add: paren_def)
  ultimately show ?thesis using p by simp
qed

lemma skeleton_rewrite: "skeleton (rewrite c n) = skeleton n"
  by (induction n) simp

text \<open>
  C9. \<open>resolve\<close> leaves the document's \<open>id\<close>, \<open>type\<close>, \<open>source\<close> and \<open>heading\<close> (and \<open>spans\<close>
  and \<open>meta\<close>) as they are, and the nodes keep everything but their text: \<open>id\<close>, \<open>label\<close>,
  \<open>level\<close>, \<open>heading\<close> and \<open>children\<close>, node for node, so that no node is deleted. Only \<open>links\<close>
  and the \<open>text\<close> of nodes can differ.
\<close>

theorem resolve_frame:
  "d_id (resolve d) = d_id d \<and> d_type (resolve d) = d_type d \<and> d_source (resolve d) = d_source d
   \<and> d_heading (resolve d) = d_heading d \<and> d_spans (resolve d) = d_spans d
   \<and> d_meta (resolve d) = d_meta d
   \<and> map_option (map skeleton) (d_nodes (resolve d)) = map_option (map skeleton) (d_nodes d)"
  by (simp add: resolve_def Let_def skeleton_rewrite split: option.split list.split)

text \<open>
  C10. For a document whose \<open>nodes\<close> are missing or empty, \<open>resolve\<close> returns the document
  as it is, but for \<open>links\<close>, which is the empty list when the key was missing.
\<close>

theorem resolve_without_nodes:
  assumes "d_nodes d = None \<or> d_nodes d = Some []"
  shows "resolve d = d\<lparr>d_links := Some (case d_links d of Some ls \<Rightarrow> ls | None \<Rightarrow> [])\<rparr>"
  using assms by (auto simp: resolve_def)

theorem resolve_without_nodes_witness:
  "d_nodes (document (assist_document [] ''USC'' [])) = Some []
   \<and> resolve (document (assist_document [] ''USC'' []))
       = (document (assist_document [] ''USC'' []))\<lparr>d_links := Some []\<rparr>"
  using resolve_without_nodes [of "document (assist_document [] ''USC'' [])"]
  by (simp add: assist_document_def)




section \<open>The end-to-end scenario\<close>

lemma usc_162_pipeline:
  "resolve (document (parse_text usc_162_text ''USC'' [])) = usc_162_resolved"
  by code_simp

text \<open>
  C1. Parsing \<open>usc_162_text\<close> as USC text and resolving the result gives
  \<open>usc_162_resolved\<close>: its links are one with relation \<open>for-purposes-of\<close> and target
  \<open>usc:26:162(a)\<close> (from the text of subsection (b)) and one with relation \<open>subject-to\<close> and
  target \<open>usc:26:274\<close> (from paragraph (1) of (b)), and the text of that paragraph holds
  the bracketed pointer to \<open>usc:26:274\<close>.
\<close>

theorem end_to_end_scenario:
  "resolve (document (parse xml usc_162_text ''USC'' [] ''text'')) = usc_162_resolved
   \<and> d_links usc_162_resolved = Some
       [\<lparr>l_source = ''usc:26:162(b)'', l_target = ''usc:26:162(a)'',
          l_relation = ''for-purposes-of'', l_scope = ''intra-section'',
          l_ref_text = ''subsection (a)'', l_confidence = 95\<rparr>,
        \<lparr>l_source = ''usc:26:162(b)(1)'', l_target = ''usc:26:274'',
          l_relation = ''subject-to'', l_scope = ''inter-section'',
          l_ref_text = ''section 274'', l_confidence = 95\<rparr>]
   \<and> map ntext (filter (\<lambda>n. node_id n = ''usc:26:162(b)(1)'')
         (concat (map flatten_nodes (the (d_nodes usc_162_resolved)))))
       = [''It is subject to section 274 '' @ brackets ''usc:26:274'' @ '' limits.'']"
proof -
  have "lower ''text'' \<noteq> ''uslm''" by code_simp
  then have "parse xml usc_162_text ''USC'' [] ''text'' = parse_text usc_162_text ''USC'' []"
    by (simp add: parse_def)
  then show ?thesis
    by (simp add: usc_162_pipeline) (simp add: usc_162_resolved_def)
qed

end
